theory Spec2Isabelle
  imports Complex_Main "HOL-Library.Char_ord" "HOL-Library.List_Lexorder" "HOL-Library.Product_Lexorder"
begin

section \<open>Values, exceptions and tables\<close>

text \<open>
  A cell of a table is a text, an integer or the missing value. The Collector only ever
  produces text cells; integer cells appear in the two-column frame that
  \<^verbatim>\<open>reset_index()\<close> builds from a frequency count, and missing values where frames of
  different columns are concatenated. A text is a sequence of characters with code points
  below 256.
\<close>

datatype cell = Str string | Num int | NaN

datatype error =
    ValueError string
  | KeyError string
  | TypeError string
  | FileExistsError string
  | FileNotFoundError string

text \<open>
  A \<^verbatim>\<open>pandas.DataFrame\<close>: its columns in order, each a name and the values of the
  column.
\<close>

record dataframe =
  columns :: "(string \<times> cell list) list"

text \<open>A frequency count (\<^verbatim>\<open>Series\<close> of counts): value labels with their counts, in order.\<close>

type_synonym series = "(cell \<times> nat) list"

text \<open>A labelled matrix of counts, as \<^verbatim>\<open>pd.crosstab\<close> returns it.\<close>

record crosstable =
  index :: "cell list"
  tcolumns :: "cell list"
  tvalues :: "nat list list"

subsection \<open>The dataframe operations the scripts call\<close>

text \<open>\<^verbatim>\<open>pd.DataFrame({...})\<close> from a dict of lists: all lists must have one length.\<close>

definition DataFrame :: "(string \<times> cell list) list \<Rightarrow> error + dataframe" where
  "DataFrame d =
     (case d of
        [] \<Rightarrow> Inr \<lparr>columns = []\<rparr>
      | (k, xs) # rest \<Rightarrow>
          if list_all (\<lambda>(k', ys). length ys = length xs) rest
          then Inr \<lparr>columns = d\<rparr>
          else Inl (ValueError ''All arrays must be of the same length''))"

text \<open>\<^verbatim>\<open>len(df)\<close>: the number of rows.\<close>

definition len_df :: "dataframe \<Rightarrow> nat" where
  "len_df df = (case columns df of [] \<Rightarrow> 0 | (k, xs) # rest \<Rightarrow> length xs)"

text \<open>\<^verbatim>\<open>df[name]\<close>: the column of that name, a \<^verbatim>\<open>KeyError\<close> when there is none.\<close>

definition getitem :: "dataframe \<Rightarrow> string \<Rightarrow> error + cell list" where
  "getitem df name =
     (case map_of (columns df) name of
        None \<Rightarrow> Inl (KeyError name)
      | Some xs \<Rightarrow> Inr xs)"

text \<open>The distinct values of a column, in order of first appearance.\<close>

definition unique :: "'a list \<Rightarrow> 'a list" where
  "unique xs = rev (remdups (rev xs))"

text \<open>Counting ignores missing values (\<^verbatim>\<open>dropna=True\<close> is the default).\<close>

definition dropna :: "cell list \<Rightarrow> cell list" where
  "dropna xs = filter (\<lambda>c. c \<noteq> NaN) xs"

definition nunique :: "cell list \<Rightarrow> nat" where
  "nunique xs = length (unique (dropna xs))"

text \<open>
  \<^verbatim>\<open>Series.value_counts()\<close>: every distinct value with its number of occurrences, most
  frequent first; values of equal count stay in order of first appearance.
\<close>

definition by_count_desc :: "'a \<times> nat \<Rightarrow> int" where
  "by_count_desc p = - int (snd p)"

definition value_counts :: "cell list \<Rightarrow> series" where
  "value_counts xs =
     sort_key by_count_desc (map (\<lambda>v. (v, count_list xs v)) (unique (dropna xs)))"

text \<open>
  The slice \<^verbatim>\<open>xs[:n]\<close> for an integer \<open>n\<close>: the first \<open>n\<close> entries, and for a negative
  \<open>n\<close> all but the last \<open>-n\<close>.
\<close>

definition slice_to :: "int \<Rightarrow> 'a list \<Rightarrow> 'a list" where
  "slice_to n xs = (if 0 \<le> n then take (nat n) xs else take (length xs - nat (- n)) xs)"

text \<open>\<^verbatim>\<open>Series.head(n)\<close> is the slice \<^verbatim>\<open>iloc[:n]\<close>; \<open>n\<close> defaults to 5.\<close>

definition head :: "int \<Rightarrow> 'a list \<Rightarrow> 'a list" where
  "head n s = slice_to n s"

text \<open>
  \<^verbatim>\<open>Series.reset_index()\<close> on a frequency count of the column \<open>name\<close>: a new frame of
  two columns, the labels and their counts.
\<close>

definition reset_index :: "string \<Rightarrow> series \<Rightarrow> dataframe" where
  "reset_index name s =
     \<lparr>columns = [(name, map fst s), (''count'', map (\<lambda>p. Num (int (snd p))) s)]\<rparr>"

text \<open>
  Labels are ordered as the table library orders a column of mixed values: numbers before
  texts, numbers by value and texts lexicographically.
\<close>

definition cell_key :: "cell \<Rightarrow> nat \<times> int \<times> string" where
  "cell_key c = (case c of Num i \<Rightarrow> (0, i, []) | Str s \<Rightarrow> (1, 0, s) | NaN \<Rightarrow> (2, 0, []))"

text \<open>
  \<^verbatim>\<open>pd.crosstab(rows, cols)\<close>: of the positions where neither value is missing, the
  sorted distinct values of each column as labels, and in each cell the number of
  positions where that pair of values occurs.
\<close>

definition crosstab :: "cell list \<Rightarrow> cell list \<Rightarrow> crosstable" where
  "crosstab rows cols =
     (let pairs = filter (\<lambda>(r, c). r \<noteq> NaN \<and> c \<noteq> NaN) (zip rows cols);
          idx = sort_key cell_key (unique (map fst pairs));
          cs = sort_key cell_key (unique (map snd pairs))
      in \<lparr>index = idx, tcolumns = cs,
          tvalues = map (\<lambda>r. map (\<lambda>c. count_list pairs (r, c)) cs) idx\<rparr>)"

text \<open>\<^verbatim>\<open>.sum(axis=1)\<close>, the total of each row, and \<^verbatim>\<open>.sum(axis=0)\<close>, of each column.\<close>

definition sum_axis1 :: "crosstable \<Rightarrow> series" where
  "sum_axis1 t = zip (index t) (map sum_list (tvalues t))"

definition sum_axis0 :: "crosstable \<Rightarrow> series" where
  "sum_axis0 t =
     zip (tcolumns t)
       (foldr (\<lambda>row acc. map (\<lambda>(a, b). a + b) (zip row acc)) (tvalues t)
          (replicate (length (tcolumns t)) 0))"

text \<open>
  \<^verbatim>\<open>Series.nlargest(k)\<close>: the \<open>k\<close> largest entries, largest first, the first kept on ties;
  none for \<open>k \<le> 0\<close>.
\<close>

definition nlargest :: "int \<Rightarrow> series \<Rightarrow> series" where
  "nlargest k s = take (nat k) (sort_key by_count_desc s)"

text \<open>
  \<^verbatim>\<open>table.loc[rs, cs]\<close> with two lists of labels: the sub-matrix in the order of the
  lists; a label the table does not have is a \<^verbatim>\<open>KeyError\<close>.
\<close>

definition loc :: "crosstable \<Rightarrow> cell list \<Rightarrow> cell list \<Rightarrow> error + crosstable" where
  "loc t rs cs =
     (if \<not> list_all (\<lambda>r. r \<in> set (index t)) rs \<or> \<not> list_all (\<lambda>c. c \<in> set (tcolumns t)) cs
      then Inl (KeyError ''labels not in index'')
      else Inr \<lparr>index = rs, tcolumns = cs,
             tvalues = map (\<lambda>r. map (\<lambda>c.
               (case map_of (zip (index t) (tvalues t)) r of
                  None \<Rightarrow> 0
                | Some row \<Rightarrow> (case map_of (zip (tcolumns t) row) c of None \<Rightarrow> 0 | Some v \<Rightarrow> v))) cs) rs\<rparr>)"

text \<open>
  A Dataset of the specification is a sequence of (State, City) records of text. Its table
  is the one the Collector builds with
  \<^verbatim>\<open>pd.DataFrame({"State": states, "City": cities})\<close>.
\<close>

type_synonym dataset = "(string \<times> string) list"

definition dataset_frame :: "dataset \<Rightarrow> dataframe" where
  "dataset_frame D =
     \<lparr>columns = [(''State'', map (\<lambda>r. Str (fst r)) D), (''City'', map (\<lambda>r. Str (snd r)) D)]\<rparr>"


section \<open>The process state\<close>

text \<open>
  What a chart shows: the numeric content handed to the plotting library. Rendering itself
  (pixels, fonts, layout) is not modelled.
\<close>

datatype palette = Colors "string list" | Palette string "int option"

datatype chart =
    BarPlot string "cell list" "cell list" palette "(nat \<times> rat option \<times> string) list"
  | HeatMap string crosstable
  | Figure string "chart list"

text \<open>
  A file holds what was written to it: the CSV text of a frame (\<^verbatim>\<open>to_csv(index=False)\<close>),
  its JSON array of records (\<^verbatim>\<open>to_json(orient="records")\<close>), a saved image, a directory,
  or bytes from elsewhere.
\<close>

datatype content =
    Csv dataframe
  | JsonRecords dataframe
  | Image chart
  | Directory
  | Bytes string

datatype printed =
    PStr string
  | PNat nat
  | PSeries series
  | PShape "nat \<times> nat"
  | PFrame dataframe

datatype rcvalue = RcStr string | RcList "string list" | RcInt int

text \<open>
  The state a script runs in: the file system, the console, the log of HTTP requests and of
  files opened for reading, the plotting library's global state, and the store of
  \<^verbatim>\<open>DataFrame\<close> objects with the next free reference.
\<close>

record world =
  files :: "string \<Rightarrow> content option"
  stdout :: "printed list list"
  requests_log :: "string list"
  opened :: "string list"
  plt_style :: string
  rcParams :: "string \<Rightarrow> rcvalue option"
  shown :: "chart list"
  heap :: "nat \<Rightarrow> dataframe"
  next_ref :: nat

definition print :: "printed list \<Rightarrow> world \<Rightarrow> world" where
  "print args w = w\<lparr>stdout := stdout w @ [args]\<rparr>"

definition write_file :: "string \<Rightarrow> content \<Rightarrow> world \<Rightarrow> world" where
  "write_file path f w = w\<lparr>files := (files w)(path \<mapsto> f)\<rparr>"

text \<open>A new \<^verbatim>\<open>DataFrame\<close> object: stored at the next free reference.\<close>

definition new_frame :: "dataframe \<Rightarrow> world \<Rightarrow> nat \<times> world" where
  "new_frame d w = (next_ref w, w\<lparr>heap := (heap w)(next_ref w := d), next_ref := Suc (next_ref w)\<rparr>)"

text \<open>
  \<^verbatim>\<open>data.columns = names\<close>: renames the columns of the object \<open>r\<close> in place; a
  \<^verbatim>\<open>ValueError\<close> when the number of names is not the number of columns.
\<close>

definition set_columns :: "nat \<Rightarrow> string list \<Rightarrow> world \<Rightarrow> error + world" where
  "set_columns r names w =
     (if length names \<noteq> length (columns (heap w r))
      then Inl (ValueError ''Length mismatch'')
      else Inr (w\<lparr>heap := (heap w)(r := \<lparr>columns = zip names (map snd (columns (heap w r)))\<rparr>)\<rparr>))"

text \<open>Sequencing of steps that may raise: the first exception ends the sequence.\<close>

definition and_then ::
  "(error + 'a) \<times> world \<Rightarrow> ('a \<Rightarrow> world \<Rightarrow> (error + 'b) \<times> world) \<Rightarrow> (error + 'b) \<times> world" where
  "and_then m f = (case m of (Inl e, w) \<Rightarrow> (Inl e, w) | (Inr x, w) \<Rightarrow> f x w)"

definition os_path_join :: "string \<Rightarrow> string \<Rightarrow> string" where
  "os_path_join a b =
     (if b \<noteq> [] \<and> hd b = CHR ''/'' then b
      else if a = [] \<or> last a = CHR ''/'' then a @ b
      else a @ ''/'' @ b)"

text \<open>\<^verbatim>\<open>str(n)\<close> of an integer: its decimal digits.\<close>

fun str_nat :: "nat \<Rightarrow> string" where
  "str_nat n =
     (if n < 10 then [char_of (48 + n)]
      else str_nat (n div 10) @ [char_of (48 + n mod 10)])"

declare str_nat.simps [simp del]

definition str_int :: "int \<Rightarrow> string" where
  "str_int i = (if i < 0 then CHR ''-'' # str_nat (nat (- i)) else str_nat (nat i))"


section \<open>The Reporter (sih-data-analysis.py)\<close>

subsection \<open>Paths\<close>

text \<open>
  \<^verbatim>\<open>Path(p).name\<close> is the last component of the path, empty components and single
  dots aside; \<^verbatim>\<open>Path(p).suffix\<close> is the part of the name from its last dot on, when that
  dot is neither the first nor the last character of the name.
\<close>

definition split_on :: "char \<Rightarrow> string \<Rightarrow> string list" where
  "split_on c s = foldr (\<lambda>x acc. if x = c then [] # acc else (x # hd acc) # tl acc) s [[]]"

definition path_name :: "string \<Rightarrow> string" where
  "path_name p =
     (let parts = filter (\<lambda>q. q \<noteq> [] \<and> q \<noteq> ''.'') (split_on (CHR ''/'') p)
      in if parts = [] then [] else last parts)"

definition suffix :: "string \<Rightarrow> string" where
  "suffix p =
     (let name = path_name p;
          after = length (takeWhile (\<lambda>c. c \<noteq> CHR ''.'') (rev name));
          i = length name - 1 - after
      in if CHR ''.'' \<in> set name \<and> 0 < i \<and> i < length name - 1 then drop i name else [])"

subsection \<open>The analyzer object\<close>

text \<open>
  The fields of \<^verbatim>\<open>SIHAnalyzer\<close>; \<open>df\<close> is the reference of the loaded frame in the
  store.
\<close>

record analyzer =
  data_path :: string
  df :: nat
  colors :: "string list"
  results_dir :: string

text \<open>
  The two file parsers of the table library, \<^verbatim>\<open>pd.read_csv\<close> and \<^verbatim>\<open>pd.read_json\<close>, are
  parameters: each maps a path and the file system to a frame or an exception.
\<close>

record readers =
  read_csv :: "string \<Rightarrow> (string \<Rightarrow> content option) \<Rightarrow> error + dataframe"
  read_json :: "string \<Rightarrow> (string \<Rightarrow> content option) \<Rightarrow> error + dataframe"

definition run_reader ::
  "(string \<Rightarrow> (string \<Rightarrow> content option) \<Rightarrow> error + dataframe) \<Rightarrow> string \<Rightarrow> world
     \<Rightarrow> (error + nat) \<times> world" where
  "run_reader parse path w =
     (let w1 = w\<lparr>opened := opened w @ [path]\<rparr>
      in case parse path (files w) of
           Inl e \<Rightarrow> (Inl e, w1)
         | Inr d \<Rightarrow> (case new_frame d w1 of (r, w2) \<Rightarrow> (Inr r, w2)))"

definition load_data :: "readers \<Rightarrow> string \<Rightarrow> world \<Rightarrow> (error + nat) \<times> world" where
  "load_data pd path w =
     (if suffix path = ''.csv'' then run_reader (read_csv pd) path w
      else if suffix path = ''.json'' then run_reader (read_json pd) path w
      else (Inl (ValueError ''Unsupported file format. Use CSV or JSON.''), w))"

definition setup_style :: "world \<Rightarrow> string list \<times> world" where
  "setup_style w =
     ([''#3498db'', ''#2ecc71'', ''#e74c3c'', ''#f1c40f'', ''#9b59b6'',
       ''#1abc9c'', ''#e67e22'', ''#34495e'', ''#7f8c8d'', ''#16a085''],
      w\<lparr>plt_style := ''seaborn-v0_8-darkgrid'',
        rcParams := (rcParams w)
          (''font.family'' \<mapsto> RcStr ''sans-serif'',
           ''font.sans-serif'' \<mapsto> RcList [''Arial''],
           ''axes.labelsize'' \<mapsto> RcInt 12,
           ''axes.titlesize'' \<mapsto> RcInt 14,
           ''xtick.labelsize'' \<mapsto> RcInt 10,
           ''ytick.labelsize'' \<mapsto> RcInt 10)\<rparr>)"

text \<open>\<^verbatim>\<open>os.makedirs(d, exist_ok=True)\<close>.\<close>

definition makedirs :: "string \<Rightarrow> world \<Rightarrow> (error + unit) \<times> world" where
  "makedirs d w =
     (case files w d of
        None \<Rightarrow> (Inr (), write_file d Directory w)
      | Some Directory \<Rightarrow> (Inr (), w)
      | Some other \<Rightarrow> (Inl (FileExistsError d), w))"

text \<open>The constructor \<^verbatim>\<open>SIHAnalyzer(data_path)\<close>.\<close>

definition SIHAnalyzer :: "readers \<Rightarrow> string \<Rightarrow> world \<Rightarrow> (error + analyzer) \<times> world" where
  "SIHAnalyzer pd path w =
     and_then (load_data pd path w) (\<lambda>r w1.
       case setup_style w1 of (cs, w2) \<Rightarrow>
         and_then (makedirs ''results'' w2) (\<lambda>u w3.
           (Inr \<lparr>data_path = path, df = r, colors = cs, results_dir = ''results''\<rparr>, w3)))"

subsection \<open>Statistics\<close>

datatype stat = Count nat | Top series

text \<open>
  \<^verbatim>\<open>df[name]\<close> on the analyzer's frame, as a step: the column, or the \<^verbatim>\<open>KeyError\<close>.
\<close>

definition column :: "nat \<Rightarrow> string \<Rightarrow> world \<Rightarrow> (error + cell list) \<times> world" where
  "column r name w = (getitem (heap w r) name, w)"

definition basic_stats :: "analyzer \<Rightarrow> world \<Rightarrow> (error + (string \<times> stat) list) \<times> world" where
  "basic_stats self w =
     and_then (column (df self) ''State'' w) (\<lambda>states w1.
     and_then (column (df self) ''City'' w1) (\<lambda>cities w2.
       (Inr [(''Total Entries'', Count (len_df (heap w2 (df self)))),
             (''Unique States'', Count (nunique states)),
             (''Unique Cities'', Count (nunique cities)),
             (''Top 5 States'', Top (head 5 (value_counts states))),
             (''Top 5 Cities'', Top (head 5 (value_counts cities)))], w2)))"


subsection \<open>Charts\<close>

definition savefig :: "string \<Rightarrow> chart \<Rightarrow> world \<Rightarrow> world" where
  "savefig path c w = write_file path (Image c) w"

definition show_chart :: "chart \<Rightarrow> world \<Rightarrow> world" where
  "show_chart c w = w\<lparr>shown := shown w @ [c]\<rparr>"

text \<open>
  The loop \<^verbatim>\<open>for i, v in enumerate(data["Count"]): ax.text(i, v + off, str(v))\<close>: one
  label per bar, at height \<open>v + off\<close> (no height for a missing value); adding a number to
  a text cell is a \<^verbatim>\<open>TypeError\<close>.
\<close>

fun bar_labels :: "rat \<Rightarrow> nat \<Rightarrow> cell list \<Rightarrow> error + (nat \<times> rat option \<times> string) list" where
  "bar_labels off i [] = Inr []"
| "bar_labels off i (Num v # vs) =
     (case bar_labels off (Suc i) vs of
        Inl e \<Rightarrow> Inl e
      | Inr ls \<Rightarrow> Inr ((i, Some (of_int v + off), str_int v) # ls))"
| "bar_labels off i (NaN # vs) =
     (case bar_labels off (Suc i) vs of
        Inl e \<Rightarrow> Inl e
      | Inr ls \<Rightarrow> Inr ((i, None, ''nan'') # ls))"
| "bar_labels off i (Str t # vs) = Inl (TypeError ''can only concatenate str to str'')"

text \<open>
  The bar chart of the \<open>n\<close> most frequent values of one column, shared by
  \<^verbatim>\<open>plot_top_states\<close> and \<^verbatim>\<open>plot_city_distribution\<close>, which differ in the column,
  the title, the palette, the label offset and the file name.
\<close>

definition plot_counts ::
  "string \<Rightarrow> string \<Rightarrow> palette \<Rightarrow> rat \<Rightarrow> string \<Rightarrow> int \<Rightarrow> bool \<Rightarrow> analyzer \<Rightarrow> world
     \<Rightarrow> (error + unit) \<times> world" where
  "plot_counts col title pal off fname n save self w =
     and_then (column (df self) col w) (\<lambda>values w1.
       case new_frame (reset_index col (head n (value_counts values))) w1 of (data, w2) \<Rightarrow>
         (case set_columns data [col, ''Count''] w2 of
            Inl e \<Rightarrow> (Inl e, w2)
          | Inr w3 \<Rightarrow>
              and_then (column data col w3) (\<lambda>xs w4.
              and_then (column data ''Count'' w4) (\<lambda>ys w5.
                case bar_labels off 0 ys of
                  Inl e \<Rightarrow> (Inl e, w5)
                | Inr labels \<Rightarrow>
                    (let fig = BarPlot title xs ys pal labels;
                         save_path = os_path_join (results_dir self) fname;
                         w6 = (if save
                               then print [PStr (''Plot saved as '' @ save_path)]
                                      (savefig save_path fig w5)
                               else w5)
                     in (Inr (), show_chart fig w6))))))"

definition plot_top_states :: "int \<Rightarrow> bool \<Rightarrow> analyzer \<Rightarrow> world \<Rightarrow> (error + unit) \<times> world" where
  "plot_top_states n save self w =
     plot_counts ''State'' ''Top States by Number of Selected Teams''
       (Colors (slice_to n (colors self))) 1 ''top_states.png'' n save self w"

definition plot_city_distribution :: "int \<Rightarrow> bool \<Rightarrow> analyzer \<Rightarrow> world \<Rightarrow> (error + unit) \<times> world" where
  "plot_city_distribution top_n save self w =
     plot_counts ''City'' ''Distribution of Teams Across Top Cities''
       (Palette ''viridis'' (Some top_n)) (1 / 2) ''city_distribution.png'' top_n save self w"

text \<open>
  The cross-tabulation restricted to the \<open>k\<close> rows and the \<open>l\<close> columns of largest
  total, as both the heat map and the dashboard compute it.
\<close>

definition top_crosstab :: "int \<Rightarrow> int \<Rightarrow> cell list \<Rightarrow> cell list \<Rightarrow> error + crosstable" where
  "top_crosstab k l states cities =
     (let cross_tab = crosstab states cities;
          top_states = map fst (nlargest k (sum_axis1 cross_tab));
          top_cities = map fst (nlargest l (sum_axis0 cross_tab))
      in loc cross_tab top_states top_cities)"

definition state_city_heatmap ::
  "int \<Rightarrow> int \<Rightarrow> bool \<Rightarrow> analyzer \<Rightarrow> world \<Rightarrow> (error + unit) \<times> world" where
  "state_city_heatmap top_states top_cities save self w =
     and_then (column (df self) ''State'' w) (\<lambda>states w1.
     and_then (column (df self) ''City'' w1) (\<lambda>cities w2.
       case top_crosstab top_states top_cities states cities of
         Inl e \<Rightarrow> (Inl e, w2)
       | Inr sub \<Rightarrow>
           (let fig = HeatMap ''State vs City Distribution'' sub;
                save_path = os_path_join (results_dir self) ''state_city_heatmap.png'';
                w3 = (if save
                      then print [PStr (''Plot saved as '' @ save_path)]
                             (savefig save_path fig w2)
                      else w2)
            in (Inr (), show_chart fig w3))))"

definition create_summary_dashboard :: "bool \<Rightarrow> analyzer \<Rightarrow> world \<Rightarrow> (error + unit) \<times> world" where
  "create_summary_dashboard save self w =
     and_then (column (df self) ''State'' (w\<lparr>plt_style := ''dark_background''\<rparr>)) (\<lambda>states w1.
       let state_data = head 8 (value_counts states);
           ax1 = BarPlot ''Top States'' (map (\<lambda>p. Num (int (snd p))) state_data)
                   (map fst state_data) (Palette ''viridis'' None) []
       in and_then (column (df self) ''City'' w1) (\<lambda>cities w2.
         let city_data = head 8 (value_counts cities);
             ax2 = BarPlot ''Top Cities'' (map (\<lambda>p. Num (int (snd p))) city_data)
                     (map fst city_data) (Palette ''magma'' None) []
         in case top_crosstab 6 8 states cities of
              Inl e \<Rightarrow> (Inl e, w2)
            | Inr sub \<Rightarrow>
                (let ax3 = HeatMap ''State vs City Distribution'' sub;
                     fig = Figure ''SIH Teams Analysis Dashboard'' [ax1, ax2, ax3];
                     save_path = os_path_join (results_dir self) ''sih_dashboard.png'';
                     w3 = (if save
                           then print [PStr (''Dashboard saved as '' @ save_path)]
                                  (savefig save_path fig w2)
                           else w2)
                 in (Inr (), show_chart fig w3))))"


section \<open>The Collector (sih-scraper-data.py)\<close>

subsection \<open>Pages\<close>

text \<open>
  A parsed page is a tree: an element has a name, the values of its \<^verbatim>\<open>class\<close> attribute
  (none when the attribute is absent) and children; a leaf is a piece of text.
\<close>

datatype node = Tag string "string list" "node list" | NavigableString string

record response =
  status_code :: nat
  reason :: string
  resp_url :: string
  resp_text :: string

text \<open>
  The network and the HTML parser are parameters. \<^verbatim>\<open>requests.get(url, headers, verify)\<close>
  either returns a response or raises a \<^verbatim>\<open>RequestException\<close> with a message (\<open>Inl\<close>).
\<close>

record web =
  requests_get :: "string \<Rightarrow> (string \<times> string) list \<Rightarrow> bool \<Rightarrow> string + response"
  BeautifulSoup :: "string \<Rightarrow> node"

text \<open>
  \<^verbatim>\<open>response.raise_for_status()\<close>: the message of the \<^verbatim>\<open>HTTPError\<close> it raises for a
  status from 400 to 599.
\<close>

definition raise_for_status :: "response \<Rightarrow> string option" where
  "raise_for_status r =
     (if 400 \<le> status_code r \<and> status_code r < 500
      then Some (str_nat (status_code r) @ '' Client Error: '' @ reason r @ '' for url: '' @ resp_url r)
      else if 500 \<le> status_code r \<and> status_code r < 600
      then Some (str_nat (status_code r) @ '' Server Error: '' @ reason r @ '' for url: '' @ resp_url r)
      else None)"

fun descendants :: "node \<Rightarrow> node list" where
  "descendants (Tag name cls kids) = concat (map (\<lambda>k. k # descendants k) kids)"
| "descendants (NavigableString s) = []"

fun get_text :: "node \<Rightarrow> string" where
  "get_text (Tag name cls kids) = concat (map get_text kids)"
| "get_text (NavigableString s) = s"

fun join_classes :: "string list \<Rightarrow> string" where
  "join_classes [] = []"
| "join_classes [c] = c"
| "join_classes (c # d # ds) = c @ '' '' @ join_classes (d # ds)"

text \<open>
  A \<^verbatim>\<open>class_\<close> filter holds of an element when it holds of one of its class values, or
  of all of them joined by spaces.
\<close>

definition class_matches :: "(string \<Rightarrow> bool) \<Rightarrow> string list \<Rightarrow> bool" where
  "class_matches f cls = (list_ex f cls \<or> f (join_classes cls))"

fun tag_matches :: "string \<Rightarrow> (string \<Rightarrow> bool) \<Rightarrow> node \<Rightarrow> bool" where
  "tag_matches name f (Tag name' cls kids) = (name' = name \<and> class_matches f cls)"
| "tag_matches name f (NavigableString s) = False"

definition find_all :: "string \<Rightarrow> (string \<Rightarrow> bool) \<Rightarrow> node \<Rightarrow> node list" where
  "find_all name f tree = filter (tag_matches name f) (descendants tree)"

definition find_first :: "string \<Rightarrow> (string \<Rightarrow> bool) \<Rightarrow> node \<Rightarrow> node option" where
  "find_first name f tree = (case find_all name f tree of [] \<Rightarrow> None | t # ts \<Rightarrow> Some t)"

text \<open>The filter \<^verbatim>\<open>lambda x: x and x.startswith("row")\<close>.\<close>

definition starts_with_row :: "string \<Rightarrow> bool" where
  "starts_with_row x = (x \<noteq> [] \<and> take 3 x = ''row'')"

definition isspace :: "char \<Rightarrow> bool" where
  "isspace c = (c \<in> set [CHR 0x09, CHR 0x0A, CHR 0x0B, CHR 0x0C, CHR 0x0D, CHR 0x1C, CHR 0x1D,
                        CHR 0x1E, CHR 0x1F, CHR 0x20, CHR 0x85, CHR 0xA0])"

definition strip :: "string \<Rightarrow> string" where
  "strip s = rev (dropWhile isspace (rev (dropWhile isspace s)))"


subsection \<open>Scraping one page\<close>

definition headers :: "(string \<times> string) list" where
  "headers =
     [(''User-Agent'',
       ''Mozilla/5.0 (Windows NT 10.0; Win64; x64) AppleWebKit/537.36 (KHTML, like Gecko) Chrome/91.0.4472.124 Safari/537.36'')]"

text \<open>
  The loop over the rows: a row with both cells appends their stripped texts to the two
  lists; any other row prints a message.
\<close>

fun scan_rows :: "node list \<Rightarrow> string list \<Rightarrow> string list \<Rightarrow> world \<Rightarrow> string list \<times> string list \<times> world" where
  "scan_rows [] states cities w = (states, cities, w)"
| "scan_rows (row # rows) states cities w =
     (case (find_first ''td'' (\<lambda>x. x = ''column10 style2 s'') row,
            find_first ''td'' (\<lambda>x. x = ''column9 style2 s'') row) of
        (Some state, Some city) \<Rightarrow>
          scan_rows rows (states @ [strip (get_text state)]) (cities @ [strip (get_text city)]) w
      | other \<Rightarrow>
          scan_rows rows states cities (print [PStr ''State or City not found in a row''] w))"

text \<open>
  \<^verbatim>\<open>scrape_sih_data(url)\<close>: \<open>Inr None\<close> is the return value \<^verbatim>\<open>None\<close>, \<open>Inr (Some df)\<close> the
  returned frame, \<open>Inl e\<close> an exception that leaves the function. Writing a file is taken
  to succeed.
\<close>

definition scrape_sih_data :: "web \<Rightarrow> string \<Rightarrow> world \<Rightarrow> (error + dataframe option) \<times> world" where
  "scrape_sih_data env url w =
     (let w1 = w\<lparr>requests_log := requests_log w @ [url]\<rparr>
      in case requests_get env url headers False of
           Inl msg \<Rightarrow> (Inr None, print [PStr (''Error fetching data: '' @ msg)] w1)
         | Inr resp \<Rightarrow>
             (case raise_for_status resp of
                Some msg \<Rightarrow> (Inr None, print [PStr (''Error fetching data: '' @ msg)] w1)
              | None \<Rightarrow>
                  (let w2 = print [PStr (''Successfully fetched data from '' @ url)] w1;
                       soup = BeautifulSoup env (resp_text resp);
                       rows = find_all ''tr'' starts_with_row soup;
                       w3 = print [PStr (''Found '' @ str_nat (length rows) @ '' rows'')] w2
                   in case scan_rows rows [] [] w3 of
                        (states, cities, w4) \<Rightarrow>
                          if states = [] \<or> cities = []
                          then (Inr None,
                                print [PStr ''No data extracted. Check the HTML structure.''] w4)
                          else (case DataFrame [(''State'', map Str states), (''City'', map Str cities)] of
                                  Inl e \<Rightarrow> (Inl e, w4)
                                | Inr frame \<Rightarrow>
                                    (Inr (Some frame),
                                     write_file ''sih_data.json'' (JsonRecords frame)
                                       (write_file ''sih_data.csv'' (Csv frame) w4))))))"

subsection \<open>The run over all pages\<close>

definition urls :: "string list" where
  "urls =
     [''https://www.sih.gov.in/screeningresult'',
      ''https://www.sih.gov.in/screeningresult_batch_two'',
      ''https://sih.gov.in/screeningresult_batch_three'']"

text \<open>
  \<^verbatim>\<open>pd.concat(frames, ignore_index=True)\<close>: the columns of all frames in order of first
  appearance, each the values of the frames one after the other, missing where a frame has
  no such column; no frames at all is a \<^verbatim>\<open>ValueError\<close>.
\<close>

definition pd_concat :: "dataframe list \<Rightarrow> error + dataframe" where
  "pd_concat frames =
     (if frames = [] then Inl (ValueError ''No objects to concatenate'')
      else Inr \<lparr>columns =
             map (\<lambda>k. (k, concat (map (\<lambda>d. case map_of (columns d) k of
                                              Some xs \<Rightarrow> xs
                                            | None \<Rightarrow> replicate (len_df d) NaN) frames)))
               (unique (concat (map (\<lambda>d. map fst (columns d)) frames)))\<rparr>)"

definition shape :: "dataframe \<Rightarrow> nat \<times> nat" where
  "shape d = (len_df d, length (columns d))"

definition head_df :: "int \<Rightarrow> dataframe \<Rightarrow> dataframe" where
  "head_df n d = \<lparr>columns = map (\<lambda>(k, xs). (k, slice_to n xs)) (columns d)\<rparr>"

text \<open>The loop of \<^verbatim>\<open>main\<close> over the URLs, with the list \<^verbatim>\<open>all_data\<close> it fills.\<close>

fun scrape_all :: "web \<Rightarrow> string list \<Rightarrow> dataframe list \<Rightarrow> world \<Rightarrow> (error + dataframe list) \<times> world" where
  "scrape_all env [] all_data w = (Inr all_data, w)"
| "scrape_all env (url # rest) all_data w =
     (case scrape_sih_data env url (print [PStr (''Starting data scraping for '' @ url @ ''...'')] w) of
        (Inl e, w1) \<Rightarrow> (Inl e, w1)
      | (Inr None, w1) \<Rightarrow> scrape_all env rest all_data w1
      | (Inr (Some frame), w1) \<Rightarrow> scrape_all env rest (all_data @ [frame]) w1)"

text \<open>The body of \<^verbatim>\<open>main\<close> for a list of URLs, and \<^verbatim>\<open>main\<close> itself on the configured list.\<close>

definition run_main :: "web \<Rightarrow> string list \<Rightarrow> world \<Rightarrow> (error + unit) \<times> world" where
  "run_main env us w =
     and_then (scrape_all env us [] w) (\<lambda>all_data w1.
       if all_data \<noteq> []
       then (case pd_concat all_data of
               Inl e \<Rightarrow> (Inl e, w1)
             | Inr combined_df \<Rightarrow>
                 (Inr (),
                  print [PFrame (head_df 5 combined_df)]
                    (print [PStr (CHR 0x0A # ''First few rows:'')]
                      (print [PStr (CHR 0x0A # ''Shape of combined data:''), PShape (shape combined_df)]
                        (print [PStr (CHR 0x0A # ''Data scraping successful!'')]
                          (write_file ''combined_sih_data.json'' (JsonRecords combined_df)
                            (write_file ''combined_sih_data.csv'' (Csv combined_df) w1)))))))
       else (Inr (), print [PStr ''No data scraped from any URL.''] w1))"

definition scraper_main :: "web \<Rightarrow> world \<Rightarrow> (error + unit) \<times> world" where
  "scraper_main env w = run_main env urls w"

subsection \<open>The Reporter's \<^verbatim>\<open>main\<close>\<close>

definition print_stat :: "stat \<Rightarrow> printed" where
  "print_stat v = (case v of Count n \<Rightarrow> PNat n | Top s \<Rightarrow> PSeries s)"

definition analysis_main :: "readers \<Rightarrow> world \<Rightarrow> (error + unit) \<times> world" where
  "analysis_main pd w =
     and_then (SIHAnalyzer pd ''combined_sih_data.csv'' w) (\<lambda>analyzer w1.
     and_then (basic_stats analyzer (print [PStr (CHR 0x0A # ''Basic Statistics:'')] w1)) (\<lambda>stats w2.
     and_then (plot_top_states 10 True analyzer
                 (print [PStr (CHR 0x0A # ''Generating visualizations...'')]
                   (foldl (\<lambda>v (key, val). print [print_stat val] (print [PStr (CHR 0x0A # key @ '':'')] v))
                      w2 stats))) (\<lambda>u w3.
     and_then (plot_city_distribution 20 True analyzer w3) (\<lambda>u w4.
     and_then (state_city_heatmap 10 10 True analyzer w4) (\<lambda>u w5.
       create_summary_dashboard True analyzer w5)))))"


section \<open>The Collector as the specification describes it\<close>

text \<open>
  For comparison with the code, the specification's reading of one source: the cells of a
  row that has both the State and the City cell, the rows a page keeps, the page a
  successful request yields, and the fragment a URL contributes (empty when the request
  fails or no row is kept). \<open>write_fragment\<close> is the effect of one successful scrape on the
  files.
\<close>

definition row_cells :: "node \<Rightarrow> (string \<times> string) option" where
  "row_cells row =
     (case (find_first ''td'' (\<lambda>x. x = ''column10 style2 s'') row,
            find_first ''td'' (\<lambda>x. x = ''column9 style2 s'') row) of
        (Some state, Some city) \<Rightarrow> Some (strip (get_text state), strip (get_text city))
      | other \<Rightarrow> None)"

definition kept_rows :: "node \<Rightarrow> dataset" where
  "kept_rows soup = List.map_filter row_cells (find_all ''tr'' starts_with_row soup)"

definition page :: "web \<Rightarrow> string \<Rightarrow> node option" where
  "page env url =
     (case requests_get env url headers False of
        Inl msg \<Rightarrow> None
      | Inr resp \<Rightarrow>
          (case raise_for_status resp of
             Some msg \<Rightarrow> None
           | None \<Rightarrow> Some (BeautifulSoup env (resp_text resp))))"

definition fragment :: "web \<Rightarrow> string \<Rightarrow> dataset" where
  "fragment env url = (case page env url of None \<Rightarrow> [] | Some soup \<Rightarrow> kept_rows soup)"

definition write_fragment :: "dataset \<Rightarrow> (string \<Rightarrow> content option) \<Rightarrow> (string \<Rightarrow> content option)" where
  "write_fragment f m =
     (if f = [] then m
      else m(''sih_data.csv'' \<mapsto> Csv (dataset_frame f), ''sih_data.json'' \<mapsto> JsonRecords (dataset_frame f)))"

section \<open>The Reporter's selections as the specification describes them\<close>




section \<open>Example inputs\<close>

text \<open>
  A world with nothing in it, the Dataset of the specification's scenario, and an analyzer
  whose frame is the table of that Dataset.
\<close>

definition empty_world :: world where
  "empty_world =
     \<lparr>files = Map.empty, stdout = [], requests_log = [], opened = [], plt_style = [],
      rcParams = Map.empty, shown = [], heap = (\<lambda>r. \<lparr>columns = []\<rparr>), next_ref = 0\<rparr>"

definition example_dataset :: dataset where
  "example_dataset = [(''MH'', ''Mumbai''), (''MH'', ''Pune''), (''DL'', ''Delhi'')]"

definition example_analyzer :: analyzer where
  "example_analyzer = \<lparr>data_path = ''combined_sih_data.csv'', df = 0, colors = fst (setup_style empty_world), results_dir = ''results''\<rparr>"

definition example_world :: world where
  "example_world = snd (new_frame (dataset_frame example_dataset) empty_world)"

text \<open>
  A page with a header row, a row with both cells and a row without a State cell; a network
  where one URL answers with that page, one with status 404, and any other is unreachable.
\<close>

definition example_page :: node where
  "example_page =
     Tag ''[document]'' []
       [Tag ''table'' []
          [Tag ''tr'' [''header''] [Tag ''td'' [''column10'', ''style2'', ''s''] [NavigableString ''State'']],
           Tag ''tr'' [''row1'']
             [Tag ''td'' [''column9'', ''style2'', ''s''] [NavigableString '' Mumbai ''],
              Tag ''td'' [''column10'', ''style2'', ''s''] [NavigableString ''MH'']],
           Tag ''tr'' [''row2'']
             [Tag ''td'' [''column9'', ''style2'', ''s''] [NavigableString ''Pune'']]]]"

definition example_web :: web where
  "example_web =
     \<lparr>requests_get = (\<lambda>url hs verify.
        if url = ''good'' then Inr \<lparr>status_code = 200, reason = ''OK'', resp_url = url, resp_text = ''<table>''\<rparr>
        else if url = ''missing'' then Inr \<lparr>status_code = 404, reason = ''Not Found'', resp_url = url, resp_text = []\<rparr>
        else Inl ''connection refused''),
      BeautifulSoup = (\<lambda>t. example_page)\<rparr>"

text \<open>
  Two example parsers that give back the frame a file was written from, and a file system
  holding the scenario's Dataset in both formats.
\<close>

definition example_readers :: readers where
  "example_readers =
     \<lparr>read_csv = (\<lambda>path fs. case fs path of
          None \<Rightarrow> Inl (FileNotFoundError path)
        | Some (Csv d) \<Rightarrow> Inr d
        | Some other \<Rightarrow> Inl (ValueError ''Error tokenizing data'')),
      read_json = (\<lambda>path fs. case fs path of
          None \<Rightarrow> Inl (FileNotFoundError path)
        | Some (JsonRecords d) \<Rightarrow> Inr d
        | Some other \<Rightarrow> Inl (ValueError ''Expected object or value''))\<rparr>"

definition example_disk :: world where
  "example_disk =
     write_file ''data/teams.json'' (JsonRecords (dataset_frame example_dataset))
       (write_file ''combined_sih_data.csv'' (Csv (dataset_frame example_dataset)) empty_world)"

section \<open>Properties of the counting operations\<close>

lemma remdups_snoc: "remdups (ys @ [x]) = filter (\<lambda>y. y \<noteq> x) (remdups ys) @ [x]"
  by (induction ys) auto

lemma unique_Nil [simp]: "unique [] = []"
  by (simp add: unique_def)

lemma unique_Cons: "unique (x # xs) = x # filter (\<lambda>y. y \<noteq> x) (unique xs)"
  by (simp add: unique_def remdups_snoc rev_filter)

lemma set_unique [simp]: "set (unique xs) = set xs"
  by (simp add: unique_def)

lemma distinct_unique [simp]: "distinct (unique xs)"
  by (simp add: unique_def)

lemma length_unique: "length (unique xs) = card (set xs)"
  by (simp add: unique_def length_remdups_card_conv)

lemma dropna_Str: "dropna (map (\<lambda>r. Str (f r)) D) = map (\<lambda>r. Str (f r)) D"
  by (induction D) (simp_all add: dropna_def)

lemma sum_list_insort_key: "sum_list (map f (insort_key k x xs)) = f x + sum_list (map f xs)"
  for f :: "'a \<Rightarrow> nat"
  by (induction xs) auto

lemma sum_list_sort_key: "sum_list (map f (sort_key k xs)) = sum_list (map f xs)"
  for f :: "'a \<Rightarrow> nat"
  by (induction xs) (simp_all add: sum_list_insort_key)

lemma count_list_dropna: "x \<noteq> NaN \<Longrightarrow> count_list (dropna xs) x = count_list xs x"
  by (induction xs) (auto simp: dropna_def)

lemma sum_value_counts: "sum_list (map snd (value_counts xs)) = length (dropna xs)"
proof -
  have "sum_list (map snd (value_counts xs)) = sum_list (map (count_list xs) (unique (dropna xs)))"
    by (simp add: value_counts_def sum_list_sort_key comp_def)
  also have "\<dots> = sum (count_list xs) (set (dropna xs))"
    by (simp add: sum_list_distinct_conv_sum_set)
  also have "\<dots> = sum (count_list (dropna xs)) (set (dropna xs))"
  proof (rule sum.cong)
    fix x assume "x \<in> set (dropna xs)"
    then have "x \<noteq> NaN" by (simp add: dropna_def)
    then show "count_list xs x = count_list (dropna xs) x"
      by (simp add: count_list_dropna)
  qed simp
  also have "\<dots> = length (dropna xs)"
    by (simp add: sum_count_set)
  finally show ?thesis .
qed





lemma sum_crosstab_cells:
  assumes "distinct idx" "distinct cs" "set ps \<subseteq> set idx \<times> set cs"
  shows "sum_list (map sum_list (map (\<lambda>r. map (\<lambda>c. count_list ps (r, c)) cs) idx)) = length ps"
proof -
  have "sum_list (map sum_list (map (\<lambda>r. map (\<lambda>c. count_list ps (r, c)) cs) idx))
        = (\<Sum>r\<in>set idx. \<Sum>c\<in>set cs. count_list ps (r, c))"
    using assms(1,2) by (simp add: comp_def sum_list_distinct_conv_sum_set)
  also have "\<dots> = sum (count_list ps) (set idx \<times> set cs)"
    by (simp add: sum.cartesian_product)
  also have "\<dots> = length ps"
    using assms(3) by (simp add: sum_count_set)
  finally show ?thesis .
qed

lemma sum_crosstab: 
  "sum_list (map sum_list (tvalues (crosstab rows cols)))
     = length (filter (\<lambda>(r, c). r \<noteq> NaN \<and> c \<noteq> NaN) (zip rows cols))"
proof -
  define ps where "ps = filter (\<lambda>(r, c). r \<noteq> NaN \<and> c \<noteq> NaN) (zip rows cols)"
  define idx where "idx = sort_key cell_key (unique (map fst ps))"
  define cs where "cs = sort_key cell_key (unique (map snd ps))"
  have tv: "tvalues (crosstab rows cols) = map (\<lambda>r. map (\<lambda>c. count_list ps (r, c)) cs) idx"
    by (simp add: crosstab_def Let_def ps_def idx_def cs_def)
  have "distinct idx" "distinct cs"
    by (simp_all add: idx_def cs_def)
  moreover have "set ps \<subseteq> set idx \<times> set cs"
    by (force simp: idx_def cs_def)
  ultimately have "sum_list (map sum_list (map (\<lambda>r. map (\<lambda>c. count_list ps (r, c)) cs) idx)) = length ps"
    by (rule sum_crosstab_cells)
  then show ?thesis
    by (simp only: tv ps_def)
qed

lemma getitem_dataset_frame:
  "getitem (dataset_frame D) ''State'' = Inr (map (\<lambda>r. Str (fst r)) D)"
  "getitem (dataset_frame D) ''City'' = Inr (map (\<lambda>r. Str (snd r)) D)"
  by (simp_all add: getitem_def dataset_frame_def)

lemma zip_dataset_no_NaN:
  "filter (\<lambda>(r, c). r \<noteq> NaN \<and> c \<noteq> NaN) (zip (map (\<lambda>r. Str (fst r)) D) (map (\<lambda>r. Str (snd r)) D))
     = zip (map (\<lambda>r. Str (fst r)) D) (map (\<lambda>r. Str (snd r)) D)"
  by (induction D) simp_all

section \<open>Properties of the Reporter\<close>

lemma nunique_Str: "nunique (map (\<lambda>r. Str (f r)) D) = card (f ` set D)"
proof -
  have "card (set (map (\<lambda>r. Str (f r)) D)) = card (Str ` f ` set D)"
    by (simp add: image_image)
  also have "\<dots> = card (f ` set D)"
    by (rule card_image) (simp add: inj_on_def)
  finally show ?thesis
    by (simp add: nunique_def dropna_Str length_unique)
qed

lemma basic_stats_dataset:
  assumes "heap w (df self) = dataset_frame D"
  shows "basic_stats self w =
     (Inr [(''Total Entries'', Count (length D)),
           (''Unique States'', Count (card (fst ` set D))),
           (''Unique Cities'', Count (card (snd ` set D))),
           (''Top 5 States'', Top (head 5 (value_counts (map (\<lambda>r. Str (fst r)) D)))),
           (''Top 5 Cities'', Top (head 5 (value_counts (map (\<lambda>r. Str (snd r)) D))))], w)"
  using assms
  by (simp add: basic_stats_def and_then_def column_def getitem_dataset_frame nunique_Str)
     (simp add: len_df_def dataset_frame_def)

lemma example_value_counts:
  "value_counts [Str ''MH'', Str ''MH'', Str ''DL''] = [(Str ''MH'', 2), (Str ''DL'', 1)]"
  "value_counts [Str ''Mumbai'', Str ''Pune'', Str ''Delhi''] = [(Str ''Mumbai'', 1), (Str ''Pune'', 1), (Str ''Delhi'', 1)]"
  by (simp_all add: value_counts_def dropna_def unique_Cons by_count_desc_def)

text \<open>
  Claim C1. When the analyzer's frame is the table of a Dataset \<open>D\<close>, \<^verbatim>\<open>basic_stats\<close>
  returns a map whose entry \<^verbatim>\<open>Total Entries\<close> is the number of rows of \<open>D\<close>; for the
  Dataset (MH, Mumbai), (MH, Pune), (DL, Delhi) it gives 3 entries, 2 distinct States,
  3 distinct Cities, and MH with count 2 at the top of the States.
\<close>

theorem basic_stats_total_entries:
  assumes "heap w (df self) = dataset_frame D"
  shows "\<exists>stats. basic_stats self w = (Inr stats, w) \<and>
     map_of stats ''Total Entries'' = Some (Count (length D)) \<and>
     (D = [(''MH'', ''Mumbai''), (''MH'', ''Pune''), (''DL'', ''Delhi'')] \<longrightarrow>
        map_of stats ''Total Entries'' = Some (Count 3) \<and>
        map_of stats ''Unique States'' = Some (Count 2) \<and>
        map_of stats ''Unique Cities'' = Some (Count 3) \<and>
        map_of stats ''Top 5 States'' = Some (Top [(Str ''MH'', 2), (Str ''DL'', 1)]))"
proof (intro exI conjI impI)
  show "basic_stats self w =
     (Inr [(''Total Entries'', Count (length D)),
           (''Unique States'', Count (card (fst ` set D))),
           (''Unique Cities'', Count (card (snd ` set D))),
           (''Top 5 States'', Top (head 5 (value_counts (map (\<lambda>r. Str (fst r)) D)))),
           (''Top 5 Cities'', Top (head 5 (value_counts (map (\<lambda>r. Str (snd r)) D))))], w)"
    using assms by (rule basic_stats_dataset)
qed (simp_all add: example_value_counts head_def slice_to_def)

theorem basic_stats_total_entries_witness:
  "heap example_world (df example_analyzer) = dataset_frame example_dataset \<and>
   (\<exists>stats. basic_stats example_analyzer example_world = (Inr stats, example_world) \<and>
      map_of stats ''Total Entries'' = Some (Count 3) \<and>
      map_of stats ''Unique States'' = Some (Count 2) \<and>
      map_of stats ''Unique Cities'' = Some (Count 3) \<and>
      map_of stats ''Top 5 States'' = Some (Top [(Str ''MH'', 2), (Str ''DL'', 1)]))"
proof -
  have h: "heap example_world (df example_analyzer) = dataset_frame example_dataset"
    by (simp add: example_world_def example_analyzer_def new_frame_def empty_world_def)
  from basic_stats_total_entries [OF h] obtain stats where
    run: "basic_stats example_analyzer example_world = (Inr stats, example_world)" and
    scenario: "example_dataset = [(''MH'', ''Mumbai''), (''MH'', ''Pune''), (''DL'', ''Delhi'')] \<longrightarrow>
        map_of stats ''Total Entries'' = Some (Count 3) \<and>
        map_of stats ''Unique States'' = Some (Count 2) \<and>
        map_of stats ''Unique Cities'' = Some (Count 3) \<and>
        map_of stats ''Top 5 States'' = Some (Top [(Str ''MH'', 2), (Str ''DL'', 1)])"
    by blast
  from scenario have
    "map_of stats ''Total Entries'' = Some (Count 3) \<and>
     map_of stats ''Unique States'' = Some (Count 2) \<and>
     map_of stats ''Unique Cities'' = Some (Count 3) \<and>
     map_of stats ''Top 5 States'' = Some (Top [(Str ''MH'', 2), (Str ''DL'', 1)])"
    by (simp only: example_dataset_def simp_thms)
  with h run show ?thesis by blast
qed

text \<open>
  Claim C2. For every Dataset \<open>D\<close>, the per-State frequency counts sum to the number of
  rows of \<open>D\<close>, the per-City counts likewise, and so do the cells of the State by City
  cross-tabulation.
\<close>

theorem counts_sum_to_len:
  "\<exists>states cities.
     getitem (dataset_frame D) ''State'' = Inr states \<and>
     getitem (dataset_frame D) ''City'' = Inr cities \<and>
     len_df (dataset_frame D) = length D \<and>
     sum_list (map snd (value_counts states)) = length D \<and>
     sum_list (map snd (value_counts cities)) = length D \<and>
     sum_list (map sum_list (tvalues (crosstab states cities))) = length D"
proof (intro exI conjI)
  show "getitem (dataset_frame D) ''State'' = Inr (map (\<lambda>r. Str (fst r)) D)"
    by (rule getitem_dataset_frame)
  show "getitem (dataset_frame D) ''City'' = Inr (map (\<lambda>r. Str (snd r)) D)"
    by (rule getitem_dataset_frame)
  show "len_df (dataset_frame D) = length D"
    by (simp add: len_df_def dataset_frame_def)
  show "sum_list (map snd (value_counts (map (\<lambda>r. Str (fst r)) D))) = length D"
    by (simp add: sum_value_counts dropna_Str)
  show "sum_list (map snd (value_counts (map (\<lambda>r. Str (snd r)) D))) = length D"
    by (simp add: sum_value_counts dropna_Str)
  show "sum_list (map sum_list (tvalues (crosstab (map (\<lambda>r. Str (fst r)) D) (map (\<lambda>r. Str (snd r)) D))))
          = length D"
    by (simp add: sum_crosstab zip_dataset_no_NaN)
qed





lemma shown_print [simp]: "shown (print args w) = shown w"
  by (simp add: print_def)

lemma shown_savefig [simp]: "shown (savefig path c w) = shown w"
  by (simp add: savefig_def write_file_def)











lemma suffix_examples:
  "suffix ''combined_sih_data.csv'' = ''.csv''"
  "suffix ''data/teams.json'' = ''.json''"
  "suffix ''notes.txt'' = ''.txt''"
  "suffix ''.csv'' = []"
  by code_simp+

lemma run_reader_eq:
  "opened (snd (run_reader parse path w)) = opened w @ [path] \<and>
   (case parse path (files w) of
      Inl e \<Rightarrow> fst (run_reader parse path w) = Inl e
    | Inr d \<Rightarrow> fst (run_reader parse path w) = Inr (next_ref w) \<and>
               heap (snd (run_reader parse path w)) (next_ref w) = d)"
  by (simp add: run_reader_def new_frame_def Let_def split: sum.splits)

text \<open>
  Claim C5. \<^verbatim>\<open>load_data\<close> chooses the parser by the suffix of the path: \<^verbatim>\<open>.csv\<close> runs the
  CSV parser on the file and \<^verbatim>\<open>.json\<close> the JSON parser, the frame they return being
  the one stored; any other suffix raises the unsupported-format \<^verbatim>\<open>ValueError\<close> with the
  state untouched: no file is opened, and the constructor stops there, before it sets the
  style or creates the results directory.
\<close>

theorem load_data_dispatch:
  "(suffix path = ''.csv'' \<longrightarrow>
      load_data pd path w = run_reader (read_csv pd) path w \<and>
      opened (snd (load_data pd path w)) = opened w @ [path] \<and>
      (case read_csv pd path (files w) of
         Inl e \<Rightarrow> fst (load_data pd path w) = Inl e
       | Inr d \<Rightarrow> \<exists>r. fst (load_data pd path w) = Inr r \<and> heap (snd (load_data pd path w)) r = d)) \<and>
   (suffix path = ''.json'' \<longrightarrow>
      load_data pd path w = run_reader (read_json pd) path w \<and>
      opened (snd (load_data pd path w)) = opened w @ [path] \<and>
      (case read_json pd path (files w) of
         Inl e \<Rightarrow> fst (load_data pd path w) = Inl e
       | Inr d \<Rightarrow> \<exists>r. fst (load_data pd path w) = Inr r \<and> heap (snd (load_data pd path w)) r = d)) \<and>
   (suffix path \<noteq> ''.csv'' \<and> suffix path \<noteq> ''.json'' \<longrightarrow>
      load_data pd path w = (Inl (ValueError ''Unsupported file format. Use CSV or JSON.''), w) \<and>
      SIHAnalyzer pd path w = (Inl (ValueError ''Unsupported file format. Use CSV or JSON.''), w))"
proof (intro conjI impI)
  assume csv: "suffix path = ''.csv''"
  then show l: "load_data pd path w = run_reader (read_csv pd) path w"
    by (simp add: load_data_def)
  show "opened (snd (load_data pd path w)) = opened w @ [path]"
    by (simp add: l run_reader_eq)
  show "case read_csv pd path (files w) of
         Inl e \<Rightarrow> fst (load_data pd path w) = Inl e
       | Inr d \<Rightarrow> \<exists>r. fst (load_data pd path w) = Inr r \<and> heap (snd (load_data pd path w)) r = d"
    using run_reader_eq [of "read_csv pd" path w] by (simp add: l split: sum.splits)
next
  assume json: "suffix path = ''.json''"
  then show l: "load_data pd path w = run_reader (read_json pd) path w"
    by (simp add: load_data_def)
  show "opened (snd (load_data pd path w)) = opened w @ [path]"
    by (simp add: l run_reader_eq)
  show "case read_json pd path (files w) of
         Inl e \<Rightarrow> fst (load_data pd path w) = Inl e
       | Inr d \<Rightarrow> \<exists>r. fst (load_data pd path w) = Inr r \<and> heap (snd (load_data pd path w)) r = d"
    using run_reader_eq [of "read_json pd" path w] by (simp add: l split: sum.splits)
next
  assume other: "suffix path \<noteq> ''.csv'' \<and> suffix path \<noteq> ''.json''"
  then show l: "load_data pd path w = (Inl (ValueError ''Unsupported file format. Use CSV or JSON.''), w)"
    by (simp add: load_data_def)
  show "SIHAnalyzer pd path w = (Inl (ValueError ''Unsupported file format. Use CSV or JSON.''), w)"
    by (simp add: SIHAnalyzer_def l and_then_def)
qed

theorem load_data_dispatch_witness:
  "suffix ''combined_sih_data.csv'' = ''.csv'' \<and>
   fst (load_data example_readers ''combined_sih_data.csv'' example_disk) = Inr 0 \<and>
   heap (snd (load_data example_readers ''combined_sih_data.csv'' example_disk)) 0 = dataset_frame example_dataset \<and>
   suffix ''data/teams.json'' = ''.json'' \<and>
   fst (load_data example_readers ''data/teams.json'' example_disk) = Inr 0 \<and>
   suffix ''notes.txt'' = ''.txt'' \<and>
   SIHAnalyzer example_readers ''notes.txt'' example_disk =
     (Inl (ValueError ''Unsupported file format. Use CSV or JSON.''), example_disk)"
  using load_data_dispatch [of "''combined_sih_data.csv''" example_readers example_disk]
    load_data_dispatch [of "''data/teams.json''" example_readers example_disk]
    load_data_dispatch [of "''notes.txt''" example_readers example_disk]
  by (simp add: suffix_examples)
     (simp add: example_readers_def example_disk_def write_file_def run_reader_def new_frame_def
        empty_world_def)

lemma heap_print [simp]: "heap (print args w) = heap w" "next_ref (print args w) = next_ref w"
  by (simp_all add: print_def)

lemma heap_savefig [simp]: "heap (savefig path c w) = heap w" "next_ref (savefig path c w) = next_ref w"
  by (simp_all add: savefig_def write_file_def)

lemma heap_show_chart [simp]: "heap (show_chart c w) = heap w" "next_ref (show_chart c w) = next_ref w"
  by (simp_all add: show_chart_def)

lemma new_frame_keeps:
  "new_frame d w = (r', w') \<Longrightarrow> r < next_ref w \<Longrightarrow> heap w' r = heap w r \<and> r \<noteq> r' \<and> r < next_ref w'"
  by (auto simp: new_frame_def)

lemma set_columns_keeps:
  "set_columns r' names w = Inr w' \<Longrightarrow> r \<noteq> r' \<Longrightarrow> heap w' r = heap w r"
  by (auto simp: set_columns_def split: if_splits)

lemma basic_stats_heap: "heap (snd (basic_stats self w)) r = heap w r"
  by (simp add: basic_stats_def and_then_def column_def split: sum.splits)

lemma plot_counts_heap:
  assumes "r < next_ref w"
  shows "heap (snd (plot_counts col title pal off fname n save self w)) r = heap w r"
proof (cases "getitem (heap w (df self)) col")
  case (Inl e)
  then show ?thesis
    by (simp add: plot_counts_def and_then_def column_def)
next
  case (Inr vals)
  obtain data w2 where nf: "new_frame (reset_index col (head n (value_counts vals))) w = (data, w2)"
    by (cases "new_frame (reset_index col (head n (value_counts vals))) w") auto
  from new_frame_keeps [OF nf assms] have w2: "heap w2 r = heap w r" "r \<noteq> data"
    by simp_all
  show ?thesis
  proof (cases "set_columns data [col, ''Count''] w2")
    case (Inl e)
    then show ?thesis
      by (simp add: plot_counts_def and_then_def column_def Inr nf w2)
  next
    case sc: (Inr w3)
    from set_columns_keeps [OF sc w2(2)] have w3: "heap w3 r = heap w r"
      by (simp add: w2)
    show ?thesis
      by (simp add: plot_counts_def and_then_def column_def Inr nf sc w3 Let_def
          split: sum.splits)
  qed
qed

lemma heatmap_heap: "heap (snd (state_city_heatmap k l save self w)) r = heap w r"
  by (simp add: state_city_heatmap_def and_then_def column_def Let_def split: sum.splits)

lemma dashboard_heap: "heap (snd (create_summary_dashboard save self w)) r = heap w r"
  by (simp add: create_summary_dashboard_def and_then_def column_def Let_def split: sum.splits)

text \<open>The reference the constructor stores in \<open>df\<close> is an allocated one.\<close>

lemma run_reader_allocated:
  "run_reader parse path w = (Inr r, w') \<Longrightarrow> r < next_ref w'"
  by (auto simp: run_reader_def new_frame_def Let_def split: sum.splits)

lemma load_data_allocated:
  "load_data pd path w = (Inr r, w') \<Longrightarrow> r < next_ref w'"
  by (auto simp: load_data_def dest: run_reader_allocated split: if_splits)

lemma makedirs_next_ref: "next_ref (snd (makedirs d w)) = next_ref w"
  by (simp add: makedirs_def write_file_def split: option.splits content.splits)

lemma and_then_Inr:
  "and_then m f = (Inr b, w') \<Longrightarrow> \<exists>x w1. m = (Inr x, w1) \<and> f x w1 = (Inr b, w')"
  by (cases m) (auto simp: and_then_def split: sum.splits)

lemma SIHAnalyzer_allocated:
  assumes "SIHAnalyzer pd path w = (Inr a, w')"
  shows "df a < next_ref w'"
proof -
  from assms [unfolded SIHAnalyzer_def] obtain r w1 where
    ld: "load_data pd path w = (Inr r, w1)" and
    rest: "(case setup_style w1 of (cs, w2) \<Rightarrow>
             and_then (makedirs ''results'' w2) (\<lambda>u w3.
               (Inr \<lparr>data_path = path, df = r, colors = cs, results_dir = ''results''\<rparr>, w3)))
           = (Inr a, w')"
    by (blast dest: and_then_Inr)
  obtain cs w2 where ss: "setup_style w1 = (cs, w2)"
    by (cases "setup_style w1")
  then have n2: "next_ref w2 = next_ref w1"
    by (auto simp: setup_style_def)
  from rest [unfolded ss prod.case] obtain u w3 where
    md: "makedirs ''results'' w2 = (Inr u, w3)" and
    fin: "(Inr \<lparr>data_path = path, df = r, colors = cs, results_dir = ''results''\<rparr>, w3) = (Inr a, w')"
    by (blast dest: and_then_Inr)
  from md have n3: "next_ref w3 = next_ref w2"
    using makedirs_next_ref [of "''results''" w2] by simp
  from fin have "df a = r" "w' = w3"
    by auto
  then show ?thesis
    using load_data_allocated [OF ld] n2 n3 by simp
qed

text \<open>
  Claim C9. Each operation of the analyzer leaves the stored frame \<^verbatim>\<open>self.df\<close> as it
  was, for every analyzer whose frame is an allocated object: the only object modified in
  place is the new frame that \<^verbatim>\<open>reset_index()\<close> returns, whose columns are renamed, and
  it is stored at a fresh reference.
\<close>

theorem operations_leave_df_unchanged:
  assumes "df self < next_ref w"
  shows "heap (snd (basic_stats self w)) (df self) = heap w (df self) \<and>
         heap (snd (plot_top_states n save self w)) (df self) = heap w (df self) \<and>
         heap (snd (plot_city_distribution top_n save self w)) (df self) = heap w (df self) \<and>
         heap (snd (state_city_heatmap top_states top_cities save self w)) (df self) = heap w (df self) \<and>
         heap (snd (create_summary_dashboard save self w)) (df self) = heap w (df self)"
  using assms
  by (simp add: basic_stats_heap plot_counts_heap heatmap_heap dashboard_heap
      plot_top_states_def plot_city_distribution_def)



theorem operations_leave_df_unchanged_witness:
  "df example_analyzer < next_ref example_world \<and>
   heap (snd (basic_stats example_analyzer example_world)) (df example_analyzer) = dataset_frame example_dataset \<and>
   heap (snd (plot_top_states 10 True example_analyzer example_world)) (df example_analyzer) = dataset_frame example_dataset \<and>
   heap (snd (plot_city_distribution 20 True example_analyzer example_world)) (df example_analyzer) = dataset_frame example_dataset \<and>
   heap (snd (state_city_heatmap 10 10 True example_analyzer example_world)) (df example_analyzer) = dataset_frame example_dataset \<and>
   heap (snd (create_summary_dashboard True example_analyzer example_world)) (df example_analyzer) = dataset_frame example_dataset"
proof -
  have h: "df example_analyzer < next_ref example_world"
    by (simp add: example_world_def example_analyzer_def new_frame_def empty_world_def)
  have d: "heap example_world (df example_analyzer) = dataset_frame example_dataset"
    by (simp add: example_world_def example_analyzer_def new_frame_def empty_world_def)
  show ?thesis
    using h operations_leave_df_unchanged [OF h, of 10 True 20 10 10] by (simp only: d simp_thms)
qed

section \<open>Properties of the Collector\<close>

lemma map_filter_Cons:
  "List.map_filter f (x # xs) = (case f x of None \<Rightarrow> List.map_filter f xs | Some y \<Rightarrow> y # List.map_filter f xs)"
  by (simp add: List.map_filter_def split: option.splits)

lemma scan_rows_eq:
  "\<exists>w'. scan_rows rows states cities w =
           (states @ map fst (List.map_filter row_cells rows),
            cities @ map snd (List.map_filter row_cells rows), w') \<and>
         files w' = files w \<and> requests_log w' = requests_log w"
proof (induction rows arbitrary: states cities w)
  case Nil
  then show ?case by (simp add: List.map_filter_def)
next
  case (Cons row rows)
  show ?case
  proof (cases "row_cells row")
    case None
    then have step: "scan_rows (row # rows) states cities w =
        scan_rows rows states cities (print [PStr ''State or City not found in a row''] w)"
      by (auto simp: row_cells_def split: option.splits)
    from Cons.IH [of states cities "print [PStr ''State or City not found in a row''] w"] None
    show ?thesis
      by (simp only: step map_filter_Cons) (simp add: print_def)
  next
    case (Some p)
    then obtain s c where sc: "find_first ''td'' (\<lambda>x. x = ''column10 style2 s'') row = Some s"
      "find_first ''td'' (\<lambda>x. x = ''column9 style2 s'') row = Some c"
      "p = (strip (get_text s), strip (get_text c))"
      by (auto simp: row_cells_def split: option.splits)
    then have step: "scan_rows (row # rows) states cities w =
        scan_rows rows (states @ [fst p]) (cities @ [snd p]) w"
      by simp
    from Cons.IH [of "states @ [fst p]" "cities @ [snd p]" w] Some
    show ?thesis
      by (simp only: step map_filter_Cons) simp
  qed
qed

lemma DataFrame_two:
  "length xs = length ys \<Longrightarrow> DataFrame [(k, xs), (l, ys)] = Inr \<lparr>columns = [(k, xs), (l, ys)]\<rparr>"
  by (simp add: DataFrame_def)

lemma scrape_sih_data_eq:
  "\<exists>w'. scrape_sih_data env url w =
           (Inr (if fragment env url = [] then None else Some (dataset_frame (fragment env url))), w') \<and>
         requests_log w' = requests_log w @ [url] \<and>
         files w' = write_fragment (fragment env url) (files w)"
proof (cases "page env url")
  case None
  then have frag: "fragment env url = []"
    by (simp add: fragment_def)
  from None consider
    (refused) msg where "requests_get env url headers False = Inl msg" |
    (status) resp msg where "requests_get env url headers False = Inr resp"
      "raise_for_status resp = Some msg"
    by (cases "requests_get env url headers False")
       (auto simp: page_def split: option.splits)
  then obtain msg where
    "scrape_sih_data env url w =
       (Inr None, print [PStr (''Error fetching data: '' @ msg)] (w\<lparr>requests_log := requests_log w @ [url]\<rparr>))"
  proof cases
    case (refused msg)
    then have "scrape_sih_data env url w =
       (Inr None, print [PStr (''Error fetching data: '' @ msg)] (w\<lparr>requests_log := requests_log w @ [url]\<rparr>))"
      unfolding scrape_sih_data_def Let_def by simp
    then show ?thesis by (rule that)
  next
    case (status resp msg)
    then have "scrape_sih_data env url w =
       (Inr None, print [PStr (''Error fetching data: '' @ msg)] (w\<lparr>requests_log := requests_log w @ [url]\<rparr>))"
      unfolding scrape_sih_data_def Let_def by simp
    then show ?thesis by (rule that)
  qed
  then show ?thesis
    by (simp add: frag write_fragment_def print_def)
next
  case (Some soup)
  then obtain resp where resp: "requests_get env url headers False = Inr resp"
    "raise_for_status resp = None" "soup = BeautifulSoup env (resp_text resp)"
    by (auto simp: page_def split: sum.splits option.splits)
  define w3 where "w3 = print [PStr (''Found '' @ str_nat (length (find_all ''tr'' starts_with_row soup)) @ '' rows'')]
     (print [PStr (''Successfully fetched data from '' @ url)] (w\<lparr>requests_log := requests_log w @ [url]\<rparr>))"
  from scan_rows_eq [of "find_all ''tr'' starts_with_row soup" "[]" "[]" w3]
  obtain w4 where w4: "scan_rows (find_all ''tr'' starts_with_row soup) [] [] w3 =
      (map fst (kept_rows soup), map snd (kept_rows soup), w4)"
      "files w4 = files w3" "requests_log w4 = requests_log w3"
    by (auto simp: kept_rows_def)
  have frag: "fragment env url = kept_rows soup"
    by (simp add: fragment_def Some)
  have run: "scrape_sih_data env url w =
      (if kept_rows soup = [] then (Inr None, print [PStr ''No data extracted. Check the HTML structure.''] w4)
       else (Inr (Some (dataset_frame (kept_rows soup))),
             write_file ''sih_data.json'' (JsonRecords (dataset_frame (kept_rows soup)))
               (write_file ''sih_data.csv'' (Csv (dataset_frame (kept_rows soup))) w4)))"
  proof -
    have "scrape_sih_data env url w =
        (case scan_rows (find_all ''tr'' starts_with_row soup) [] [] w3 of
           (states, cities, w4) \<Rightarrow>
             if states = [] \<or> cities = []
             then (Inr None, print [PStr ''No data extracted. Check the HTML structure.''] w4)
             else (case DataFrame [(''State'', map Str states), (''City'', map Str cities)] of
                     Inl e \<Rightarrow> (Inl e, w4)
                   | Inr frame \<Rightarrow>
                       (Inr (Some frame),
                        write_file ''sih_data.json'' (JsonRecords frame)
                          (write_file ''sih_data.csv'' (Csv frame) w4))))"
      unfolding scrape_sih_data_def Let_def w3_def
      by (simp only: resp(1,2) resp(3) [symmetric] sum.case option.case)
    then show ?thesis
      by (simp add: w4 DataFrame_two dataset_frame_def comp_def)
  qed
  show ?thesis
    by (simp add: run frag write_fragment_def write_file_def print_def w4 w3_def)
qed


lemma scrape_all_eq:
  "\<exists>w'. scrape_all env us all_data w =
           (Inr (all_data @ map dataset_frame (filter (\<lambda>f. f \<noteq> []) (map (fragment env) us))), w') \<and>
         requests_log w' = requests_log w @ us \<and>
         files w' = foldl (\<lambda>m u. write_fragment (fragment env u) m) (files w) us"
proof (induction us arbitrary: all_data w)
  case Nil
  then show ?case by simp
next
  case (Cons url rest)
  define w0 where "w0 = print [PStr (''Starting data scraping for '' @ url @ ''...'')] w"
  from scrape_sih_data_eq [of env url w0] obtain w1 where w1:
    "scrape_sih_data env url w0 =
       (Inr (if fragment env url = [] then None else Some (dataset_frame (fragment env url))), w1)"
    "requests_log w1 = requests_log w0 @ [url]"
    "files w1 = write_fragment (fragment env url) (files w0)"
    by blast
  have w0: "requests_log w0 = requests_log w" "files w0 = files w"
    by (simp_all add: w0_def print_def)
  show ?case
  proof (cases "fragment env url = []")
    case True
    then have step: "scrape_all env (url # rest) all_data w = scrape_all env rest all_data w1"
      by (simp only: scrape_all.simps w0_def [symmetric] w1) simp
    from Cons.IH [of all_data w1] show ?thesis
      by (simp only: step) (simp add: True w1 w0)
  next
    case False
    then have step: "scrape_all env (url # rest) all_data w =
        scrape_all env rest (all_data @ [dataset_frame (fragment env url)]) w1"
      by (simp only: scrape_all.simps w0_def [symmetric] w1) simp
    from Cons.IH [of "all_data @ [dataset_frame (fragment env url)]" w1] show ?thesis
      by (simp only: step) (simp add: False w1 w0)
  qed
qed

lemma unique_two: "a \<noteq> b \<Longrightarrow> set xs \<subseteq> {a, b} \<Longrightarrow> unique (a # b # xs) = [a, b]"
  by (auto simp: unique_Cons filter_empty_conv)

lemma pd_concat_datasets:
  assumes "fs \<noteq> []"
  shows "pd_concat (map dataset_frame fs) = Inr (dataset_frame (concat fs))"
proof -
  from assms obtain f rest where fs: "fs = f # rest" by (cases fs) auto
  have names: "unique (concat (map (\<lambda>d. map fst (columns d)) (map dataset_frame fs))) = [''State'', ''City'']"
    unfolding fs by (simp add: dataset_frame_def, rule unique_two) (auto simp: dataset_frame_def)
  have st: "concat (map (\<lambda>d. case map_of (columns d) ''State'' of Some xs \<Rightarrow> xs | None \<Rightarrow> replicate (len_df d) NaN)
              (map dataset_frame fs)) = map (\<lambda>r. Str (fst r)) (concat fs)"
    by (induction fs) (simp_all add: dataset_frame_def)
  have ci: "concat (map (\<lambda>d. case map_of (columns d) ''City'' of Some xs \<Rightarrow> xs | None \<Rightarrow> replicate (len_df d) NaN)
              (map dataset_frame fs)) = map (\<lambda>r. Str (snd r)) (concat fs)"
    by (induction fs) (simp_all add: dataset_frame_def)
  show ?thesis
    using assms by (simp add: pd_concat_def names st ci dataset_frame_def del: map_map)
qed

lemma write_fragments_last:
  "foldl (\<lambda>m u. write_fragment (g u) m) m0 us =
     (let fs = filter (\<lambda>f. f \<noteq> []) (map g us)
      in if fs = [] then m0 else write_fragment (last fs) m0)"
proof (induction us rule: rev_induct)
  case Nil
  then show ?case by simp
next
  case (snoc u us)
  then show ?case
    by (auto simp: Let_def write_fragment_def)
qed

lemma page_example:
  "page example_web ''good'' = Some example_page"
  "page example_web ''missing'' = None"
  "page example_web ''down'' = None"
  by (simp_all add: page_def example_web_def raise_for_status_def)

lemma find_all_example:
  "find_all ''tr'' starts_with_row example_page =
     [Tag ''tr'' [''row1'']
        [Tag ''td'' [''column9'', ''style2'', ''s''] [NavigableString '' Mumbai ''],
         Tag ''td'' [''column10'', ''style2'', ''s''] [NavigableString ''MH'']],
      Tag ''tr'' [''row2'']
        [Tag ''td'' [''column9'', ''style2'', ''s''] [NavigableString ''Pune'']]]"
  by (simp add: find_all_def example_page_def class_matches_def starts_with_row_def)

lemma strip_example: "strip '' Mumbai '' = ''Mumbai''" "strip ''MH'' = ''MH''"
  by (simp_all add: strip_def isspace_def)

lemma row_cells_example:
  "row_cells (Tag ''tr'' [''row1'']
        [Tag ''td'' [''column9'', ''style2'', ''s''] [NavigableString '' Mumbai ''],
         Tag ''td'' [''column10'', ''style2'', ''s''] [NavigableString ''MH'']]) = Some (''MH'', ''Mumbai'')"
  "row_cells (Tag ''tr'' [''row2'']
        [Tag ''td'' [''column9'', ''style2'', ''s''] [NavigableString ''Pune'']]) = None"
  by (simp_all add: row_cells_def find_first_def find_all_def class_matches_def strip_example)

lemma kept_rows_example: "kept_rows example_page = [(''MH'', ''Mumbai'')]"
  by (simp add: kept_rows_def find_all_example map_filter_Cons row_cells_example)

lemma fragment_example:
  "fragment example_web ''good'' = [(''MH'', ''Mumbai'')]"
  "fragment example_web ''missing'' = []"
  "fragment example_web ''down'' = []"
  by (simp_all add: fragment_def page_example kept_rows_example)


lemma last_nonempty: "fs = filter (\<lambda>f. f \<noteq> []) xs \<Longrightarrow> fs \<noteq> [] \<Longrightarrow> last fs \<noteq> []"
  using last_in_set [of fs] by auto

lemma run_main_eq:
  "\<exists>w'. run_main env us w = (Inr (), w') \<and>
         requests_log w' = requests_log w @ us \<and>
         files w' =
           (let fs = filter (\<lambda>f. f \<noteq> []) (map (fragment env) us)
            in if fs = [] then files w
               else (files w)
                 (''sih_data.csv'' \<mapsto> Csv (dataset_frame (last fs)),
                  ''sih_data.json'' \<mapsto> JsonRecords (dataset_frame (last fs)),
                  ''combined_sih_data.csv'' \<mapsto> Csv (dataset_frame (concat fs)),
                  ''combined_sih_data.json'' \<mapsto> JsonRecords (dataset_frame (concat fs)))) \<and>
         (filter (\<lambda>f. f \<noteq> []) (map (fragment env) us) = [] \<longrightarrow>
            stdout w' \<noteq> [] \<and> last (stdout w') = [PStr ''No data scraped from any URL.''])"
proof -
  define fs where "fs = filter (\<lambda>f. f \<noteq> []) (map (fragment env) us)"
  from scrape_all_eq [of env us "[]" w] obtain w1 where w1:
    "scrape_all env us [] w = (Inr (map dataset_frame fs), w1)"
    "requests_log w1 = requests_log w @ us"
    "files w1 = foldl (\<lambda>m u. write_fragment (fragment env u) m) (files w) us"
    by (auto simp: fs_def)
  have files1: "files w1 = (if fs = [] then files w else write_fragment (last fs) (files w))"
    by (simp add: w1(3) write_fragments_last [of "fragment env"] Let_def fs_def)
  show ?thesis
  proof (cases "fs = []")
    case True
    then show ?thesis
      by (simp add: run_main_def and_then_def w1(1,2) files1 print_def fs_def [symmetric])
  next
    case False
    then have "last fs \<noteq> []"
      using last_nonempty [OF fs_def] by simp
    with False show ?thesis
      by (simp add: run_main_def and_then_def w1(1,2) files1 print_def write_file_def
          fs_def [symmetric] pd_concat_datasets write_fragment_def)
  qed
qed

text \<open>
  Claim C10. \<^verbatim>\<open>scrape_sih_data\<close> returns \<^verbatim>\<open>None\<close> exactly when the request fails or no
  row has both a State and a City cell; otherwise it returns a table of the two columns
  State and City, in that order, with one row for each row of the page that has both
  cells, holding the stripped texts of the two cells. Both columns are built from the same
  list of kept rows, so they have one length and no kept row lacks a field.
\<close>

theorem scrape_sih_data_result:
  "fst (scrape_sih_data env url w) =
     Inr (case page env url of
            None \<Rightarrow> None
          | Some soup \<Rightarrow>
              if kept_rows soup = [] then None
              else Some \<lparr>columns = [(''State'', map (\<lambda>r. Str (fst r)) (kept_rows soup)),
                                    (''City'', map (\<lambda>r. Str (snd r)) (kept_rows soup))]\<rparr>) \<and>
   (fst (scrape_sih_data env url w) = Inr None) =
     (page env url = None \<or> (\<exists>soup. page env url = Some soup \<and> kept_rows soup = [])) \<and>
   kept_rows soup' = List.map_filter row_cells (find_all ''tr'' starts_with_row soup') \<and>
   row_cells row =
     (case (find_first ''td'' (\<lambda>x. x = ''column10 style2 s'') row,
            find_first ''td'' (\<lambda>x. x = ''column9 style2 s'') row) of
        (Some state, Some city) \<Rightarrow> Some (strip (get_text state), strip (get_text city))
      | other \<Rightarrow> None)"
proof -
  from scrape_sih_data_eq [of env url w] have
    r: "fst (scrape_sih_data env url w) =
      Inr (if fragment env url = [] then None else Some (dataset_frame (fragment env url)))"
    by auto
  show ?thesis
    by (simp only: r kept_rows_def [symmetric] row_cells_def [symmetric])
       (auto simp: fragment_def dataset_frame_def split: option.splits)
qed

theorem scrape_sih_data_result_witness:
  "fst (scrape_sih_data example_web ''good'' empty_world) =
     Inr (Some \<lparr>columns = [(''State'', [Str ''MH'']), (''City'', [Str ''Mumbai''])]\<rparr>) \<and>
   fst (scrape_sih_data example_web ''missing'' empty_world) = Inr None \<and>
   fst (scrape_sih_data example_web ''down'' empty_world) = Inr None"
  using scrape_sih_data_result [of example_web "''good''" empty_world example_page "NavigableString []"]
    scrape_sih_data_result [of example_web "''missing''" empty_world example_page "NavigableString []"]
    scrape_sih_data_result [of example_web "''down''" empty_world example_page "NavigableString []"]
  by (simp add: page_example kept_rows_example)

text \<open>
  Claim C6. No exception leaves the scrape of one URL; a URL whose request fails or whose
  page keeps no row returns \<^verbatim>\<open>None\<close> and adds nothing to the accumulated frames, while
  every URL of the list is still requested, in order; and when every URL fails, the run
  writes no file and its last message is the "nothing scraped" one.
\<close>

theorem collector_failure_semantics:
  "(\<exists>r. fst (scrape_sih_data env url w) = Inr r) \<and>
   (fragment env url = [] \<longrightarrow> fst (scrape_sih_data env url w) = Inr None) \<and>
   fst (scrape_all env us all_data w) =
     Inr (all_data @ map dataset_frame (filter (\<lambda>f. f \<noteq> []) (map (fragment env) us))) \<and>
   requests_log (snd (run_main env us w)) = requests_log w @ us \<and>
   fst (run_main env us w) = Inr () \<and>
   ((\<forall>u\<in>set us. fragment env u = []) \<longrightarrow>
      files (snd (run_main env us w)) = files w \<and>
      last (stdout (snd (run_main env us w))) = [PStr ''No data scraped from any URL.''])"
proof -
  from scrape_sih_data_eq [of env url w] have
    one: "fst (scrape_sih_data env url w) =
      Inr (if fragment env url = [] then None else Some (dataset_frame (fragment env url)))"
    by auto
  from scrape_all_eq [of env us all_data w] have
    loop: "fst (scrape_all env us all_data w) =
      Inr (all_data @ map dataset_frame (filter (\<lambda>f. f \<noteq> []) (map (fragment env) us)))"
    by auto
  from run_main_eq [of env us w] obtain w' where w':
    "run_main env us w = (Inr (), w')"
    "requests_log w' = requests_log w @ us"
    "files w' =
       (let fs = filter (\<lambda>f. f \<noteq> []) (map (fragment env) us)
        in if fs = [] then files w
           else (files w)
             (''sih_data.csv'' \<mapsto> Csv (dataset_frame (last fs)),
              ''sih_data.json'' \<mapsto> JsonRecords (dataset_frame (last fs)),
              ''combined_sih_data.csv'' \<mapsto> Csv (dataset_frame (concat fs)),
              ''combined_sih_data.json'' \<mapsto> JsonRecords (dataset_frame (concat fs))))"
    "filter (\<lambda>f. f \<noteq> []) (map (fragment env) us) = [] \<longrightarrow>
       stdout w' \<noteq> [] \<and> last (stdout w') = [PStr ''No data scraped from any URL.'']"
    by blast
  have none: "filter (\<lambda>f. f \<noteq> []) (map (fragment env) us) = []" if "\<forall>u\<in>set us. fragment env u = []"
    using that by (simp add: filter_empty_conv)
  show ?thesis
    using w'(3,4) none by (simp add: one loop w'(1,2) Let_def)
qed

theorem collector_failure_semantics_witness:
  "fragment example_web ''down'' = [] \<and> fragment example_web ''missing'' = [] \<and>
   fst (scrape_sih_data example_web ''down'' empty_world) = Inr None \<and>
   requests_log (snd (run_main example_web [''down'', ''missing''] empty_world)) = [''down'', ''missing''] \<and>
   files (snd (run_main example_web [''down'', ''missing''] empty_world)) = Map.empty \<and>
   last (stdout (snd (run_main example_web [''down'', ''missing''] empty_world))) =
     [PStr ''No data scraped from any URL.'']"
  using collector_failure_semantics [of example_web "''down''" empty_world "[''down'', ''missing'']" "[]"]
  by (simp add: fragment_example) (simp add: empty_world_def)

text \<open>
  Claim C7, as stated, says that after the run the per-URL files hold the last URL's
  fragment. When the last URL fails after an earlier one succeeded, they hold the earlier
  fragment instead.
\<close>

theorem last_url_fragment_counterexample:
  "fragment example_web (last [''good'', ''down'']) = [] \<and>
   files (snd (run_main example_web [''good'', ''down''] empty_world)) ''sih_data.csv'' =
     Some (Csv (dataset_frame [(''MH'', ''Mumbai'')])) \<and>
   files (snd (run_main example_web [''good'', ''down''] empty_world)) ''sih_data.csv'' \<noteq>
     Some (Csv (dataset_frame (fragment example_web (last [''good'', ''down'']))))"
proof -
  from run_main_eq [of example_web "[''good'', ''down'']" empty_world] obtain w' where w':
    "run_main example_web [''good'', ''down''] empty_world = (Inr (), w')"
    "files w' =
       (let fs = filter (\<lambda>f. f \<noteq> []) (map (fragment example_web) [''good'', ''down''])
        in if fs = [] then files empty_world
           else (files empty_world)
             (''sih_data.csv'' \<mapsto> Csv (dataset_frame (last fs)),
              ''sih_data.json'' \<mapsto> JsonRecords (dataset_frame (last fs)),
              ''combined_sih_data.csv'' \<mapsto> Csv (dataset_frame (concat fs)),
              ''combined_sih_data.json'' \<mapsto> JsonRecords (dataset_frame (concat fs))))"
    by blast
  have "files w' ''sih_data.csv'' = Some (Csv (dataset_frame [(''MH'', ''Mumbai'')]))"
    by (simp add: w'(2) fragment_example)
  then show ?thesis
    by (simp add: w'(1) fragment_example dataset_frame_def)
qed

text \<open>
  Claim C7, amended. After a run in which some URL yields a non-empty fragment,
  \<^verbatim>\<open>sih_data.csv\<close> and \<^verbatim>\<open>sih_data.json\<close> hold the last non-empty fragment only, and
  \<^verbatim>\<open>combined_sih_data.csv\<close> and \<^verbatim>\<open>combined_sih_data.json\<close> hold the concatenation of
  all non-empty fragments in URL order; when no URL yields one, no file is written.
\<close>

theorem collector_output_files:
  "files (snd (run_main env us w)) =
     (let fs = filter (\<lambda>f. f \<noteq> []) (map (fragment env) us)
      in if fs = [] then files w
         else (files w)
           (''sih_data.csv'' \<mapsto> Csv (dataset_frame (last fs)),
            ''sih_data.json'' \<mapsto> JsonRecords (dataset_frame (last fs)),
            ''combined_sih_data.csv'' \<mapsto> Csv (dataset_frame (concat fs)),
            ''combined_sih_data.json'' \<mapsto> JsonRecords (dataset_frame (concat fs))))"
  using run_main_eq [of env us w] by auto

theorem collector_output_files_witness:
  "files (snd (run_main example_web [''good'', ''down'', ''good''] empty_world)) =
     Map.empty
       (''sih_data.csv'' \<mapsto> Csv (dataset_frame [(''MH'', ''Mumbai'')]),
        ''sih_data.json'' \<mapsto> JsonRecords (dataset_frame [(''MH'', ''Mumbai'')]),
        ''combined_sih_data.csv'' \<mapsto> Csv (dataset_frame [(''MH'', ''Mumbai''), (''MH'', ''Mumbai'')]),
        ''combined_sih_data.json'' \<mapsto> JsonRecords (dataset_frame [(''MH'', ''Mumbai''), (''MH'', ''Mumbai'')]))"
  using collector_output_files [of example_web "[''good'', ''down'', ''good'']" empty_world]
  by (simp add: fragment_example) (simp add: empty_world_def)

end
